theory Spec2Isabelle
  imports Main
begin

section \<open>Biblioteca: configuration and models\<close>

text \<open>
  Shallow embedding of \<^verbatim>\<open>05-week/01-session/Biblioteca/app.py\<close>.

  A naive \<^verbatim>\<open>datetime\<close> is the integer number of microseconds on its time line, a
  \<^verbatim>\<open>timedelta\<close> an integer number of microseconds; addition, subtraction and
  comparison are those of the integers. The range limit of the library (years 1 to 9999)
  is not part of the model.
\<close>

type_synonym datetime = int
type_synonym timedelta = int

definition DIAS_LIMITE :: int where
  "DIAS_LIMITE = 7"

definition MULTA_DIA :: int where
  "MULTA_DIA = 1500"

definition timedelta_days :: "int \<Rightarrow> timedelta" where
  \<comment> \<open>\<^verbatim>\<open>timedelta(days=n)\<close>\<close>
  "timedelta_days n = n * 86400000000"

definition days :: "timedelta \<Rightarrow> int" where
  \<comment> \<open>\<^verbatim>\<open>td.days\<close>: a timedelta is normalised with \<^verbatim>\<open>0 <= seconds < 86400\<close>, so the
      attribute is the floor of the quotient.\<close>
  "days td = td div 86400000000"

text \<open>
  The two conversions of the \<^verbatim>\<open>datetime\<close> library the program calls are parameters
  of the model. \<open>fromisoformat\<close> gives \<open>None\<close> where the library raises
  \<^verbatim>\<open>ValueError\<close>, \<open>Some (Naive t)\<close> for a string without a UTC offset and
  \<open>Some Aware\<close> for a string with one: the library reads it, and the comparison with the
  naive \<^verbatim>\<open>datetime.now()\<close> then raises \<^verbatim>\<open>TypeError\<close>.
\<close>

datatype leida = Naive datetime | Aware

record calendario =
  isoformat :: "datetime \<Rightarrow> string"
  fromisoformat :: "string \<Rightarrow> leida option"

record socio =
  documento :: string
  nombre :: string

record material =
  titulo :: string
  categoria :: string
  stock :: int

text \<open>The field \<^verbatim>\<open>titulo\<close> of \<^verbatim>\<open>Prestamo\<close> is \<open>titulo_p\<close> here: \<open>titulo\<close> is the
  field of \<open>material\<close>.\<close>

record prestamo =
  doc :: string
  titulo_p :: string
  fecha :: string

text \<open>The messages of the \<^verbatim>\<open>ValueError\<close>s the program raises, in source order, and the
  one of \<^verbatim>\<open>datetime.fromisoformat\<close>.\<close>

datatype mensaje =
    Ya_existe_un_socio_con_ese_documento
  | Ese_material_ya_existe
  | El_socio_no_existe
  | El_material_no_existe
  | Sin_ejemplares_disponibles
  | Ese_prestamo_no_existe
  | Invalid_isoformat_string

text \<open>\<open>No_tipado\<close> stands for an outcome the typed records cannot hold: \<^verbatim>\<open>Socio(**d)\<close>
  and its siblings accept a value of any type in any field without raising.\<close>

datatype error =
    ValueError mensaje
  | StopIteration
  | TypeError
  | No_tipado

section \<open>Persistence\<close>

text \<open>A backing file holds the JSON value that \<^verbatim>\<open>json.dumps\<close> wrote and
  \<^verbatim>\<open>json.loads\<close> reads back; the text between the two is not modelled, and reading
  and writing a file do not fail. Numbers are the integers.\<close>

datatype json =
    JNull
  | JBool bool
  | JInt int
  | JStr string
  | JArr "json list"
  | JObj "(string \<times> json) list"

record base_datos =
  socios :: "socio list"
  materiales :: "material list"
  prestamos :: "prestamo list"

text \<open>The three files; \<open>None\<close> when \<^verbatim>\<open>Path.exists()\<close> is false.\<close>

record disco =
  ARCHIVO_SOCIOS :: "json option"
  ARCHIVO_MATERIALES :: "json option"
  ARCHIVO_PRESTAMOS :: "json option"

record sistema =
  db :: base_datos
  archivos :: disco

definition asdict_socio :: "socio \<Rightarrow> json" where
  "asdict_socio s = JObj [(''documento'', JStr (documento s)), (''nombre'', JStr (nombre s))]"

definition asdict_material :: "material \<Rightarrow> json" where
  "asdict_material m =
     JObj [(''titulo'', JStr (titulo m)), (''categoria'', JStr (categoria m)),
           (''stock'', JInt (stock m))]"

definition asdict_prestamo :: "prestamo \<Rightarrow> json" where
  "asdict_prestamo p =
     JObj [(''doc'', JStr (doc p)), (''titulo'', JStr (titulo_p p)),
           (''fecha'', JStr (fecha p))]"

definition campo :: "(string \<times> json) list \<Rightarrow> string \<Rightarrow> json option" where
  \<comment> \<open>the value of a key in the dict \<^verbatim>\<open>json.loads\<close> builds: the last binding wins\<close>
  "campo kvs k = map_of (rev kvs) k"

definition Socio_de :: "json \<Rightarrow> error + socio" where
  \<comment> \<open>\<^verbatim>\<open>Socio(**d)\<close>: the keys must be exactly the fields\<close>
  "Socio_de d =
     (case d of
        JObj kvs \<Rightarrow>
          if set (map fst kvs) = {''documento'', ''nombre''} then
            (case (campo kvs ''documento'', campo kvs ''nombre'') of
               (Some (JStr a), Some (JStr b)) \<Rightarrow> Inr \<lparr>documento = a, nombre = b\<rparr>
             | _ \<Rightarrow> Inl No_tipado)
          else Inl TypeError
      | _ \<Rightarrow> Inl TypeError)"

definition Material_de :: "json \<Rightarrow> error + material" where
  \<comment> \<open>\<^verbatim>\<open>Material(**d)\<close>\<close>
  "Material_de d =
     (case d of
        JObj kvs \<Rightarrow>
          if set (map fst kvs) = {''titulo'', ''categoria'', ''stock''} then
            (case (campo kvs ''titulo'', campo kvs ''categoria'', campo kvs ''stock'') of
               (Some (JStr a), Some (JStr b), Some (JInt n)) \<Rightarrow>
                 Inr \<lparr>titulo = a, categoria = b, stock = n\<rparr>
             | _ \<Rightarrow> Inl No_tipado)
          else Inl TypeError
      | _ \<Rightarrow> Inl TypeError)"

definition Prestamo_de :: "json \<Rightarrow> error + prestamo" where
  \<comment> \<open>\<^verbatim>\<open>Prestamo(**d)\<close>\<close>
  "Prestamo_de d =
     (case d of
        JObj kvs \<Rightarrow>
          if set (map fst kvs) = {''doc'', ''titulo'', ''fecha''} then
            (case (campo kvs ''doc'', campo kvs ''titulo'', campo kvs ''fecha'') of
               (Some (JStr a), Some (JStr b), Some (JStr c)) \<Rightarrow>
                 Inr \<lparr>doc = a, titulo_p = b, fecha = c\<rparr>
             | _ \<Rightarrow> Inl No_tipado)
          else Inl TypeError
      | _ \<Rightarrow> Inl TypeError)"

definition iterar :: "json \<Rightarrow> error + json list" where
  \<comment> \<open>\<^verbatim>\<open>for d in json.loads(...)\<close>: a list gives its elements, a dict its keys, a
      string its characters; nothing else is iterable\<close>
  "iterar j =
     (case j of
        JArr ds \<Rightarrow> Inr ds
      | JObj kvs \<Rightarrow> Inr (map JStr (rev (remdups (rev (map fst kvs)))))
      | JStr s \<Rightarrow> Inr (map (\<lambda>c. JStr [c]) s)
      | _ \<Rightarrow> Inl TypeError)"

fun construir :: "(json \<Rightarrow> error + 'a) \<Rightarrow> json list \<Rightarrow> error + 'a list" where
  \<comment> \<open>the list comprehension \<^verbatim>\<open>[C(**d) for d in ds]\<close>, left at the first raise\<close>
  "construir f [] = Inr []"
| "construir f (d # ds) =
     (case f d of
        Inl e \<Rightarrow> Inl e
      | Inr x \<Rightarrow> (case construir f ds of Inl e \<Rightarrow> Inl e | Inr xs \<Rightarrow> Inr (x # xs)))"

definition leer :: "(json \<Rightarrow> error + 'a) \<Rightarrow> json \<Rightarrow> error + 'a list" where
  "leer f j = (case iterar j of Inl e \<Rightarrow> Inl e | Inr ds \<Rightarrow> construir f ds)"

definition cargar_datos :: "disco \<Rightarrow> base_datos \<Rightarrow> error + base_datos" where
  "cargar_datos a b =
     (case (case ARCHIVO_SOCIOS a of
              None \<Rightarrow> Inr b
            | Some j \<Rightarrow> (case leer Socio_de j of
                           Inl e \<Rightarrow> Inl e
                         | Inr xs \<Rightarrow> Inr (b\<lparr>socios := xs\<rparr>))) of
        Inl e \<Rightarrow> Inl e
      | Inr b1 \<Rightarrow>
          (case (case ARCHIVO_MATERIALES a of
                   None \<Rightarrow> Inr b1
                 | Some j \<Rightarrow> (case leer Material_de j of
                                Inl e \<Rightarrow> Inl e
                              | Inr xs \<Rightarrow> Inr (b1\<lparr>materiales := xs\<rparr>))) of
             Inl e \<Rightarrow> Inl e
           | Inr b2 \<Rightarrow>
               (case ARCHIVO_PRESTAMOS a of
                  None \<Rightarrow> Inr b2
                | Some j \<Rightarrow> (case leer Prestamo_de j of
                               Inl e \<Rightarrow> Inl e
                             | Inr xs \<Rightarrow> Inr (b2\<lparr>prestamos := xs\<rparr>)))))"

definition BaseDatos_init :: "disco \<Rightarrow> error + base_datos" where
  \<comment> \<open>\<^verbatim>\<open>BaseDatos.__init__\<close>: three empty lists, then \<^verbatim>\<open>cargar_datos\<close>\<close>
  "BaseDatos_init a = cargar_datos a \<lparr>socios = [], materiales = [], prestamos = []\<rparr>"

definition guardar_datos :: "sistema \<Rightarrow> sistema" where
  "guardar_datos s =
     s\<lparr>archivos :=
         \<lparr>ARCHIVO_SOCIOS = Some (JArr (map asdict_socio (socios (db s)))),
          ARCHIVO_MATERIALES = Some (JArr (map asdict_material (materiales (db s)))),
          ARCHIVO_PRESTAMOS = Some (JArr (map asdict_prestamo (prestamos (db s))))\<rparr>\<rparr>"

section \<open>Business logic\<close>

text \<open>
  A method of \<^verbatim>\<open>GestorPrestamos\<close> takes the state and gives its result, or the exception
  it raises, together with the state it leaves. \<open>find P xs\<close> is
  \<^verbatim>\<open>next((x for x in xs if P(x)), None)\<close>. Each call of \<^verbatim>\<open>datetime.now()\<close> is a
  reading of the clock, and the readings are arguments: \<open>prestar\<close> and
  \<open>calcular_multa\<close> take the one reading they make.
\<close>

fun modificar_primero :: "('a \<Rightarrow> bool) \<Rightarrow> ('a \<Rightarrow> 'a) \<Rightarrow> 'a list \<Rightarrow> 'a list" where
  \<comment> \<open>the assignment to a field of the object that \<^verbatim>\<open>next(x for x in xs if P(x))\<close> found\<close>
  "modificar_primero P f [] = []"
| "modificar_primero P f (x # xs) =
     (if P x then f x # xs else x # modificar_primero P f xs)"

definition registrar_socio :: "string \<Rightarrow> string \<Rightarrow> sistema \<Rightarrow> (error + unit) \<times> sistema" where
  "registrar_socio nom d s =
     (if list_ex (\<lambda>x. documento x = d) (socios (db s)) then
        (Inl (ValueError Ya_existe_un_socio_con_ese_documento), s)
      else
        (Inr (),
         guardar_datos
           (s\<lparr>db := (db s)\<lparr>socios := socios (db s) @ [\<lparr>documento = d, nombre = nom\<rparr>]\<rparr>\<rparr>)))"

definition registrar_material ::
  "string \<Rightarrow> string \<Rightarrow> int \<Rightarrow> sistema \<Rightarrow> (error + unit) \<times> sistema" where
  "registrar_material t c n s =
     (if list_ex (\<lambda>m. titulo m = t) (materiales (db s)) then
        (Inl (ValueError Ese_material_ya_existe), s)
      else
        (Inr (),
         guardar_datos
           (s\<lparr>db := (db s)\<lparr>materiales :=
                 materiales (db s) @ [\<lparr>titulo = t, categoria = c, stock = n\<rparr>]\<rparr>\<rparr>)))"

definition prestar ::
  "calendario \<Rightarrow> datetime \<Rightarrow> string \<Rightarrow> string \<Rightarrow> sistema \<Rightarrow> (error + unit) \<times> sistema" where
  "prestar cal ahora d t s =
     (case find (\<lambda>x. documento x = d) (socios (db s)) of
        None \<Rightarrow> (Inl (ValueError El_socio_no_existe), s)
      | Some x \<Rightarrow>
          (case find (\<lambda>m. titulo m = t) (materiales (db s)) of
             None \<Rightarrow> (Inl (ValueError El_material_no_existe), s)
           | Some m \<Rightarrow>
               if stock m \<le> 0 then (Inl (ValueError Sin_ejemplares_disponibles), s)
               else
                 (Inr (),
                  guardar_datos
                    (s\<lparr>db := (db s)
                         \<lparr>materiales :=
                            modificar_primero (\<lambda>m. titulo m = t)
                              (\<lambda>m. m\<lparr>stock := stock m - 1\<rparr>) (materiales (db s)),
                          prestamos :=
                            prestamos (db s) @
                            [\<lparr>doc = d, titulo_p = t, fecha = isoformat cal ahora\<rparr>]\<rparr>\<rparr>))))"

definition calcular_multa :: "calendario \<Rightarrow> datetime \<Rightarrow> prestamo \<Rightarrow> error + int" where
  "calcular_multa cal hoy p =
     (case fromisoformat cal (fecha p) of
        None \<Rightarrow> Inl (ValueError Invalid_isoformat_string)
      | Some Aware \<Rightarrow> Inl TypeError
      | Some (Naive fecha_prestamo) \<Rightarrow>
          (let limite = fecha_prestamo + timedelta_days DIAS_LIMITE in
           if hoy \<le> limite then Inr 0
           else (let atraso = days (hoy - limite) in Inr (atraso * MULTA_DIA))))"

definition devolver ::
  "calendario \<Rightarrow> datetime \<Rightarrow> string \<Rightarrow> string \<Rightarrow> sistema \<Rightarrow> (error + int) \<times> sistema" where
  "devolver cal hoy d t s =
     (case find (\<lambda>p. doc p = d \<and> titulo_p p = t) (prestamos (db s)) of
        None \<Rightarrow> (Inl (ValueError Ese_prestamo_no_existe), s)
      | Some p \<Rightarrow>
          (let s1 = s\<lparr>db := (db s)\<lparr>prestamos := remove1 p (prestamos (db s))\<rparr>\<rparr> in
           case find (\<lambda>m. titulo m = t) (materiales (db s1)) of
             None \<Rightarrow> (Inl StopIteration, s1)
           | Some m \<Rightarrow>
               (let s2 = guardar_datos
                           (s1\<lparr>db := (db s1)
                                 \<lparr>materiales :=
                                    modificar_primero (\<lambda>m. titulo m = t)
                                      (\<lambda>m. m\<lparr>stock := stock m + 1\<rparr>) (materiales (db s1))\<rparr>\<rparr>)
                in (calcular_multa cal hoy p, s2))))"

definition prestamos_activos :: "sistema \<Rightarrow> prestamo list \<times> sistema" where
  "prestamos_activos s = (prestamos (db s), s)"

text \<open>
  \<^verbatim>\<open>prestamos_vencidos\<close> calls \<^verbatim>\<open>calcular_multa\<close> once for each loan, and each call
  reads \<^verbatim>\<open>datetime.now()\<close> anew: \<open>reloj k\<close> is the reading of the call for the loan at
  position \<open>k\<close> of the collection.
\<close>

fun vencidos_bucle ::
  "calendario \<Rightarrow> (nat \<Rightarrow> datetime) \<Rightarrow> nat \<Rightarrow> prestamo list \<Rightarrow> (prestamo \<times> int) list
     \<Rightarrow> error + (prestamo \<times> int) list" where
  \<comment> \<open>the \<^verbatim>\<open>for\<close> loop of \<^verbatim>\<open>prestamos_vencidos\<close> from position \<open>k\<close> on; the last
      argument is \<^verbatim>\<open>vencidos\<close>\<close>
  "vencidos_bucle cal reloj k [] vencidos = Inr vencidos"
| "vencidos_bucle cal reloj k (p # ps) vencidos =
     (case calcular_multa cal (reloj k) p of
        Inl e \<Rightarrow> Inl e
      | Inr multa \<Rightarrow>
          if multa > 0 then vencidos_bucle cal reloj (Suc k) ps (vencidos @ [(p, multa)])
          else vencidos_bucle cal reloj (Suc k) ps vencidos)"

definition prestamos_vencidos ::
  "calendario \<Rightarrow> (nat \<Rightarrow> datetime) \<Rightarrow> sistema
     \<Rightarrow> (error + (prestamo \<times> int) list) \<times> sistema" where
  "prestamos_vencidos cal reloj s = (vencidos_bucle cal reloj 0 (prestamos (db s)) [], s)"

definition lecturas :: "(nat \<Rightarrow> datetime) \<Rightarrow> nat \<Rightarrow> prestamo list \<Rightarrow> (prestamo \<times> datetime) list" where
  \<comment> \<open>each loan with the reading of its call, for a collection that starts at position \<open>k\<close>\<close>
  "lecturas reloj k ps = zip ps (map reloj [k..<k + length ps])"

section \<open>The fine as the specification words it\<close>

text \<open>The formula of the specification for \<^verbatim>\<open>computeFine\<close>, on a loan timestamp and a
  clock reading in microseconds: the due date is seven days after the loan; up to the due
  date the fine is 0, after it 1500 for each whole day elapsed.\<close>

definition computeFine :: "datetime \<Rightarrow> datetime \<Rightarrow> int" where
  "computeFine T now =
     (let dueDate = T + 7 * 86400000000 in
      if now \<le> dueDate then 0 else ((now - dueDate) div 86400000000) * 1500)"

section \<open>Predicates on states\<close>

definition stock_no_negativo :: "sistema \<Rightarrow> bool" where
  "stock_no_negativo s = list_all (\<lambda>m. 0 \<le> stock m) (materiales (db s))"

section \<open>Example values\<close>

text \<open>A calendar known at two instants, with its origin at the first one; the second is
  nine days later.\<close>

definition cal_ejemplo :: calendario where
  "cal_ejemplo =
     \<lparr>isoformat = (\<lambda>t. if t = 0 then ''2025-01-01T00:00:00'' else ''2025-01-10T00:00:00''),
      fromisoformat =
        (\<lambda>s. if s = ''2025-01-01T00:00:00'' then Some (Naive 0)
             else if s = ''2025-01-10T00:00:00'' then Some (Naive 777600000000)
             else if s = ''2025-01-10T00:00:00+00:00'' then Some Aware
             else None)\<rparr>"

definition sin_archivos :: disco where
  "sin_archivos =
     \<lparr>ARCHIVO_SOCIOS = None, ARCHIVO_MATERIALES = None, ARCHIVO_PRESTAMOS = None\<rparr>"

definition socio_A :: socio where
  "socio_A = \<lparr>documento = ''doc1'', nombre = ''A''\<rparr>"

definition libro :: "int \<Rightarrow> material" where
  "libro n = \<lparr>titulo = ''Book'', categoria = ''Libro'', stock = n\<rparr>"

definition prestamo_viejo :: prestamo where
  "prestamo_viejo = \<lparr>doc = ''doc1'', titulo_p = ''Book'', fecha = ''2025-01-01T00:00:00''\<rparr>"

definition prestamo_nuevo :: prestamo where
  "prestamo_nuevo = \<lparr>doc = ''doc1'', titulo_p = ''Book'', fecha = ''2025-01-10T00:00:00''\<rparr>"

definition prestamo_B :: prestamo where
  "prestamo_B = \<lparr>doc = ''doc2'', titulo_p = ''Book'', fecha = ''2025-01-01T00:00:00''\<rparr>"

text \<open>A clock that passes the end of the eighth day between its first two readings.\<close>

definition reloj_ejemplo :: "nat \<Rightarrow> datetime" where
  "reloj_ejemplo k = (if k = 0 then 691199999999 else 691200000000)"

definition estado :: "socio list \<Rightarrow> material list \<Rightarrow> prestamo list \<Rightarrow> sistema" where
  "estado ss ms ps =
     \<lparr>db = \<lparr>socios = ss, materiales = ms, prestamos = ps\<rparr>, archivos = sin_archivos\<rparr>"

section \<open>Lists: the first match\<close>

lemma modificar_primero_find:
  "find Q xs = Some m \<Longrightarrow>
     \<exists>ys zs. xs = ys @ m # zs \<and> (\<forall>y\<in>set ys. \<not> Q y) \<and> Q m \<and>
             modificar_primero Q f xs = ys @ f m # zs"
proof (induction xs)
  case Nil
  then show ?case by simp
next
  case (Cons x xs)
  show ?case
  proof (cases "Q x")
    case True
    with Cons.prems have "x = m" by simp
    with True show ?thesis by (intro exI[of _ "[]"] exI[of _ xs]) simp
  next
    case False
    with Cons obtain ys zs where
      "xs = ys @ m # zs" "\<forall>y\<in>set ys. \<not> Q y" "Q m" "modificar_primero Q f xs = ys @ f m # zs"
      by auto
    with False show ?thesis
      by (intro exI[of _ "x # ys"] exI[of _ zs]) simp
  qed
qed

lemma modificar_primero_None:
  "find Q xs = None \<Longrightarrow> modificar_primero Q f xs = xs"
  by (induction xs) (auto split: if_splits)

lemma list_all_modificar_primero:
  "list_all P xs \<Longrightarrow> (\<And>x. x \<in> set xs \<Longrightarrow> Q x \<Longrightarrow> P x \<Longrightarrow> P (f x)) \<Longrightarrow>
     list_all P (modificar_primero Q f xs)"
  by (induction xs) auto

lemma find_remove1:
  "find Q xs = Some p \<Longrightarrow>
     \<exists>ys zs. xs = ys @ p # zs \<and> (\<forall>y\<in>set ys. \<not> Q y) \<and> Q p \<and> remove1 p xs = ys @ zs"
proof (induction xs)
  case Nil
  then show ?case by simp
next
  case (Cons x xs)
  show ?case
  proof (cases "Q x")
    case True
    with Cons.prems have "x = p" by simp
    with True show ?thesis by (intro exI[of _ "[]"] exI[of _ xs]) simp
  next
    case False
    with Cons obtain ys zs where
      *: "xs = ys @ p # zs" "\<forall>y\<in>set ys. \<not> Q y" "Q p" "remove1 p xs = ys @ zs"
      by auto
    from False \<open>Q p\<close> have "x \<noteq> p" by auto
    with False * show ?thesis
      by (intro exI[of _ "x # ys"] exI[of _ zs]) simp
  qed
qed

section \<open>Registration\<close>

text \<open>
  C7: in a state that already holds a member with document \<open>d\<close>, \<open>registrar_socio\<close> with
  that document and any name raises the duplicate error and leaves the list of members
  (indeed the whole state) as it was.
\<close>

theorem registrar_socio_duplicado:
  assumes "x \<in> set (socios (db s))" and "documento x = d"
  shows "registrar_socio nom d s = (Inl (ValueError Ya_existe_un_socio_con_ese_documento), s)"
proof -
  have "list_ex (\<lambda>x. documento x = d) (socios (db s))"
    using assms by (auto simp: list_ex_iff)
  then show ?thesis
    by (simp add: registrar_socio_def)
qed

theorem registrar_socio_duplicado_witness:
  "socio_A \<in> set (socios (db (estado [socio_A] [] []))) \<and> documento socio_A = ''doc1'' \<and>
   registrar_socio ''B'' ''doc1'' (estado [socio_A] [] []) =
     (Inl (ValueError Ya_existe_un_socio_con_ese_documento), estado [socio_A] [] [])"
  using registrar_socio_duplicado
          [where x = socio_A and s = "estado [socio_A] [] []" and d = "''doc1''" and nom = "''B''"]
  by (simp add: estado_def socio_A_def)

text \<open>
  C10: a registration leaves the other collections alone, whether it succeeds or raises:
  \<open>registrar_socio\<close> keeps the materials and the loans, \<open>registrar_material\<close> keeps the
  members and the loans; and the only outcomes are success and the duplicate error.
\<close>

theorem registro_marco:
  "materiales (db (snd (registrar_socio nom d s))) = materiales (db s) \<and>
   prestamos (db (snd (registrar_socio nom d s))) = prestamos (db s) \<and>
   socios (db (snd (registrar_material t c n s))) = socios (db s) \<and>
   prestamos (db (snd (registrar_material t c n s))) = prestamos (db s) \<and>
   (fst (registrar_socio nom d s) = Inr () \<or>
    fst (registrar_socio nom d s) = Inl (ValueError Ya_existe_un_socio_con_ese_documento)) \<and>
   (fst (registrar_material t c n s) = Inr () \<or>
    fst (registrar_material t c n s) = Inl (ValueError Ese_material_ya_existe))"
  by (simp add: registrar_socio_def registrar_material_def guardar_datos_def)

text \<open>The frame of C10 on a success and on a duplicate of each registration.\<close>

theorem registro_marco_witness:
  "fst (registrar_socio ''B'' ''doc2'' (estado [socio_A] [libro 2] [prestamo_viejo])) = Inr () \<and>
   materiales (db (snd (registrar_socio ''B'' ''doc2'' (estado [socio_A] [libro 2] [prestamo_viejo]))))
     = [libro 2] \<and>
   prestamos (db (snd (registrar_socio ''B'' ''doc2'' (estado [socio_A] [libro 2] [prestamo_viejo]))))
     = [prestamo_viejo] \<and>
   fst (registrar_material ''Book'' ''Revista'' 5 (estado [socio_A] [libro 2] [prestamo_viejo]))
     = Inl (ValueError Ese_material_ya_existe) \<and>
   socios (db (snd (registrar_material ''Book'' ''Revista'' 5
                      (estado [socio_A] [libro 2] [prestamo_viejo])))) = [socio_A] \<and>
   prestamos (db (snd (registrar_material ''Book'' ''Revista'' 5
                      (estado [socio_A] [libro 2] [prestamo_viejo])))) = [prestamo_viejo]"
  using registro_marco
          [where nom = "''B''" and d = "''doc2''" and t = "''Book''" and c = "''Revista''"
             and n = 5 and s = "estado [socio_A] [libro 2] [prestamo_viejo]"]
  by (simp add: estado_def registrar_socio_def registrar_material_def socio_A_def libro_def)

section \<open>Lending\<close>

text \<open>
  C3: \<open>prestar\<close> raises exactly when the member is absent, the material is absent, or the
  stock of the material found is not positive; whenever it raises, the state it leaves is
  the state it was given (members, materials with every stock, loans and files). With a
  registered member and a stock of zero the error is the out-of-stock one.
\<close>

theorem prestar_fallo_atomico:
  "(\<forall>e. fst (prestar cal ahora d t s) = Inl e \<longrightarrow> snd (prestar cal ahora d t s) = s) \<and>
   ((\<exists>e. fst (prestar cal ahora d t s) = Inl e) \<longleftrightarrow>
      (\<not> (\<exists>x\<in>set (socios (db s)). documento x = d) \<or>
       \<not> (\<exists>m\<in>set (materiales (db s)). titulo m = t) \<or>
       (\<exists>m. find (\<lambda>m. titulo m = t) (materiales (db s)) = Some m \<and> stock m \<le> 0))) \<and>
   (\<not> (\<exists>x\<in>set (socios (db s)). documento x = d) \<longrightarrow>
      prestar cal ahora d t s = (Inl (ValueError El_socio_no_existe), s)) \<and>
   ((\<exists>x\<in>set (socios (db s)). documento x = d) \<and>
    \<not> (\<exists>m\<in>set (materiales (db s)). titulo m = t) \<longrightarrow>
      prestar cal ahora d t s = (Inl (ValueError El_material_no_existe), s)) \<and>
   ((\<exists>x\<in>set (socios (db s)). documento x = d) \<and>
    (\<exists>m. find (\<lambda>m. titulo m = t) (materiales (db s)) = Some m \<and> stock m \<le> 0) \<longrightarrow>
      prestar cal ahora d t s = (Inl (ValueError Sin_ejemplares_disponibles), s))"
proof (cases "find (\<lambda>x. documento x = d) (socios (db s))")
  case None
  then have "\<not> (\<exists>x\<in>set (socios (db s)). documento x = d)"
    by (simp add: find_None_iff)
  with None show ?thesis
    by (simp add: prestar_def)
next
  case soc: (Some x)
  then have ex: "\<exists>x\<in>set (socios (db s)). documento x = d"
    by (auto simp: find_Some_iff)
  show ?thesis
  proof (cases "find (\<lambda>m. titulo m = t) (materiales (db s))")
    case None
    then have "\<not> (\<exists>m\<in>set (materiales (db s)). titulo m = t)"
      by (simp add: find_None_iff)
    with None soc ex show ?thesis
      by (simp add: prestar_def)
  next
    case (Some m)
    then have "\<exists>m\<in>set (materiales (db s)). titulo m = t"
      by (auto simp: find_Some_iff)
    with Some soc ex show ?thesis
      by (simp add: prestar_def)
  qed
qed

text \<open>The three failures of C3 at concrete states: no member, no material, no copies.\<close>

theorem prestar_fallo_atomico_witness:
  "prestar cal_ejemplo 0 ''doc1'' ''Book'' (estado [] [libro 1] [])
     = (Inl (ValueError El_socio_no_existe), estado [] [libro 1] []) \<and>
   prestar cal_ejemplo 0 ''doc1'' ''Book'' (estado [socio_A] [] [])
     = (Inl (ValueError El_material_no_existe), estado [socio_A] [] []) \<and>
   find (\<lambda>m. titulo m = ''Book'') (materiales (db (estado [socio_A] [libro 0] []))) = Some (libro 0) \<and>
   stock (libro 0) \<le> 0 \<and>
   prestar cal_ejemplo 0 ''doc1'' ''Book'' (estado [socio_A] [libro 0] [])
     = (Inl (ValueError Sin_ejemplares_disponibles), estado [socio_A] [libro 0] [])"
  using prestar_fallo_atomico
          [where cal = cal_ejemplo and ahora = 0 and d = "''doc1''" and t = "''Book''"
             and s = "estado [] [libro 1] []"]
        prestar_fallo_atomico
          [where cal = cal_ejemplo and ahora = 0 and d = "''doc1''" and t = "''Book''"
             and s = "estado [socio_A] [] []"]
        prestar_fallo_atomico
          [where cal = cal_ejemplo and ahora = 0 and d = "''doc1''" and t = "''Book''"
             and s = "estado [socio_A] [libro 0] []"]
  by (simp add: estado_def socio_A_def libro_def)

section \<open>The stock invariant\<close>

lemma stock_prestar:
  assumes "stock_no_negativo s"
  shows "stock_no_negativo (snd (prestar cal ahora d t s))"
proof (cases "fst (prestar cal ahora d t s)")
  case (Inl e)
  then have "snd (prestar cal ahora d t s) = s"
    by (auto simp: prestar_def split: option.splits if_splits)
  with assms show ?thesis by simp
next
  case (Inr u)
  then obtain x m where
    m: "find (\<lambda>m. titulo m = t) (materiales (db s)) = Some m" "0 < stock m"
    and x: "find (\<lambda>x. documento x = d) (socios (db s)) = Some x"
    by (auto simp: prestar_def split: option.splits if_splits)
  from modificar_primero_find [OF m(1), of "\<lambda>m. m\<lparr>stock := stock m - 1\<rparr>"]
  obtain ys zs where
    yz: "materiales (db s) = ys @ m # zs"
        "modificar_primero (\<lambda>m. titulo m = t) (\<lambda>m. m\<lparr>stock := stock m - 1\<rparr>) (materiales (db s))
           = ys @ m\<lparr>stock := stock m - 1\<rparr> # zs"
    by blast
  from assms yz(1) have "list_all (\<lambda>m. 0 \<le> stock m) ys" "list_all (\<lambda>m. 0 \<le> stock m) zs"
    by (simp_all add: stock_no_negativo_def)
  with m x yz(2) show ?thesis
    by (simp add: prestar_def stock_no_negativo_def guardar_datos_def)
qed

lemma stock_devolver:
  assumes "stock_no_negativo s"
  shows "stock_no_negativo (snd (devolver cal hoy d t s))"
proof (cases "find (\<lambda>p. doc p = d \<and> titulo_p p = t) (prestamos (db s))")
  case None
  with assms show ?thesis by (simp add: devolver_def)
next
  case (Some p)
  show ?thesis
  proof (cases "find (\<lambda>m. titulo m = t) (materiales (db s))")
    case None
    with Some assms show ?thesis
      by (simp add: devolver_def stock_no_negativo_def)
  next
    case m: (Some m)
    from assms have "list_all (\<lambda>m. 0 \<le> stock m)
       (modificar_primero (\<lambda>m. titulo m = t) (\<lambda>m. m\<lparr>stock := stock m + 1\<rparr>) (materiales (db s)))"
      unfolding stock_no_negativo_def
      by (rule list_all_modificar_primero) simp
    with Some m show ?thesis
      by (simp add: devolver_def stock_no_negativo_def guardar_datos_def)
  qed
qed

lemma stock_registrar_material:
  assumes "stock_no_negativo s"
  shows "stock_no_negativo (snd (registrar_material t c n s)) \<longleftrightarrow>
           (0 \<le> n \<or> (\<exists>m\<in>set (materiales (db s)). titulo m = t))"
  using assms
  by (auto simp: registrar_material_def stock_no_negativo_def guardar_datos_def list_ex_iff)

text \<open>
  C1 (as amended): from a state where every stock is non-negative, \<open>prestar\<close>,
  \<open>devolver\<close> and \<open>registrar_socio\<close> end in such a state for all inputs;
  \<open>registrar_material\<close> does so exactly when the stock it is given is non-negative or the
  title is already registered (it then raises and changes nothing).
\<close>

theorem stock_invariante:
  assumes "stock_no_negativo s"
  shows "stock_no_negativo (snd (prestar cal ahora d t s)) \<and>
         stock_no_negativo (snd (devolver cal hoy d t s)) \<and>
         stock_no_negativo (snd (registrar_socio nom d s)) \<and>
         (stock_no_negativo (snd (registrar_material t c n s)) \<longleftrightarrow>
            (0 \<le> n \<or> (\<exists>m\<in>set (materiales (db s)). titulo m = t)))"
  using assms stock_prestar [OF assms] stock_devolver [OF assms] stock_registrar_material [OF assms]
  by (simp add: registrar_socio_def stock_no_negativo_def guardar_datos_def)

text \<open>C1 at a state with one copy: every operation keeps the stock non-negative, the
  registration with a non-negative stock included.\<close>

theorem stock_invariante_witness:
  "stock_no_negativo (estado [socio_A] [libro 1] [prestamo_viejo]) \<and>
   stock_no_negativo
     (snd (prestar cal_ejemplo 0 ''doc1'' ''Book'' (estado [socio_A] [libro 1] [prestamo_viejo]))) \<and>
   stock_no_negativo
     (snd (devolver cal_ejemplo 0 ''doc1'' ''Book'' (estado [socio_A] [libro 1] [prestamo_viejo]))) \<and>
   stock_no_negativo
     (snd (registrar_material ''Otro'' ''Revista'' 0 (estado [socio_A] [libro 1] [prestamo_viejo])))"
proof -
  have h: "stock_no_negativo (estado [socio_A] [libro 1] [prestamo_viejo])"
    by (simp add: stock_no_negativo_def estado_def libro_def)
  show ?thesis
    using h stock_invariante
                [OF h, where cal = cal_ejemplo and ahora = 0 and hoy = 0 and d = "''doc1''"
                   and t = "''Otro''" and c = "''Revista''" and n = 0]
          stock_invariante
                [OF h, where cal = cal_ejemplo and ahora = 0 and hoy = 0 and d = "''doc1''"
                   and t = "''Book''"]
    by simp
qed

text \<open>
  C1 as stated fails: in the empty state every stock is non-negative, the registration of a
  material with stock \<open>- 1\<close> succeeds, and the state it leaves has a negative stock.
\<close>

theorem stock_negativo_counterexample:
  "stock_no_negativo (estado [] [] []) \<and>
   fst (registrar_material ''Book'' ''Libro'' (- 1) (estado [] [] [])) = Inr () \<and>
   \<not> stock_no_negativo (snd (registrar_material ''Book'' ''Libro'' (- 1) (estado [] [] [])))"
  by (simp add: registrar_material_def stock_no_negativo_def guardar_datos_def estado_def)

section \<open>The fine\<close>

lemma calcular_multa_Some:
  "fromisoformat cal (fecha p) = Some (Naive T) \<Longrightarrow> calcular_multa cal now p = Inr (computeFine T now)"
  by (simp add: calcular_multa_def computeFine_def Let_def timedelta_days_def days_def
        DIAS_LIMITE_def MULTA_DIA_def)

text \<open>
  C2: the fine depends on the loan timestamp \<open>T\<close> and the clock reading only, and is
  the formula of the specification: 0 for every reading from \<open>T\<close> to \<open>T\<close> plus seven
  days, 0 one hour after the due date, 3000 nine days after the loan, and in general, past
  the due date, 1500 times the whole days elapsed since the due date.
\<close>

theorem calcular_multa_computeFine:
  assumes "fromisoformat cal (fecha p) = Some (Naive T)"
  shows "calcular_multa cal now p = Inr (computeFine T now) \<and>
         (T \<le> now \<and> now \<le> T + timedelta_days 7 \<longrightarrow> calcular_multa cal now p = Inr 0) \<and>
         calcular_multa cal (T + timedelta_days 7 + 3600000000) p = Inr 0 \<and>
         calcular_multa cal (T + timedelta_days 9) p = Inr 3000 \<and>
         (T + timedelta_days 7 < now \<longrightarrow>
            calcular_multa cal now p =
              Inr (((now - (T + timedelta_days 7)) div timedelta_days 1) * 1500))"
  using assms
  by (simp add: calcular_multa_def computeFine_def Let_def timedelta_days_def days_def
        DIAS_LIMITE_def MULTA_DIA_def)

text \<open>
  C2 on the loan of the example calendar (timestamp 0): at seven days, at seven days and an
  hour, at nine days, and at ten days and a microsecond.
\<close>

theorem calcular_multa_computeFine_witness:
  "fromisoformat cal_ejemplo (fecha prestamo_viejo) = Some (Naive 0) \<and>
   calcular_multa cal_ejemplo 604800000000 prestamo_viejo = Inr 0 \<and>
   calcular_multa cal_ejemplo 608400000000 prestamo_viejo = Inr 0 \<and>
   calcular_multa cal_ejemplo 777600000000 prestamo_viejo = Inr 3000 \<and>
   calcular_multa cal_ejemplo 864000000001 prestamo_viejo = Inr 4500"
proof -
  have h: "fromisoformat cal_ejemplo (fecha prestamo_viejo) = Some (Naive 0)"
    by (simp add: cal_ejemplo_def prestamo_viejo_def)
  show ?thesis
    using h calcular_multa_computeFine [OF h, of 604800000000]
          calcular_multa_computeFine [OF h, of 864000000001]
    by (simp add: timedelta_days_def computeFine_def)
qed

text \<open>
  C9: for a loan whose timestamp is not later than the clock reading, the fine is returned
  and is a non-negative integer multiple of 1500.
\<close>

theorem calcular_multa_multiplo:
  assumes "fromisoformat cal (fecha p) = Some (Naive T)" and "T \<le> now"
  shows "\<exists>k. 0 \<le> k \<and> calcular_multa cal now p = Inr (k * 1500)"
proof (cases "now \<le> T + timedelta_days DIAS_LIMITE")
  case True
  with assms(1) have "calcular_multa cal now p = Inr (0 * 1500)"
    by (simp add: calcular_multa_def)
  then show ?thesis by blast
next
  case False
  then have "0 \<le> days (now - (T + timedelta_days DIAS_LIMITE))"
    by (simp add: days_def)
  moreover from False assms(1) have
    "calcular_multa cal now p = Inr (days (now - (T + timedelta_days DIAS_LIMITE)) * 1500)"
    by (simp add: calcular_multa_def MULTA_DIA_def)
  ultimately show ?thesis by blast
qed

text \<open>
  C9 on the loan of the example calendar, nine days after the loan.
\<close>

theorem calcular_multa_multiplo_witness:
  "fromisoformat cal_ejemplo (fecha prestamo_viejo) = Some (Naive 0) \<and> (0::int) \<le> 777600000000 \<and>
   (\<exists>k. 0 \<le> k \<and> calcular_multa cal_ejemplo 777600000000 prestamo_viejo = Inr (k * 1500)) \<and>
   calcular_multa cal_ejemplo 777600000000 prestamo_viejo = Inr 3000"
proof -
  have h: "fromisoformat cal_ejemplo (fecha prestamo_viejo) = Some (Naive 0)"
    by (simp add: cal_ejemplo_def prestamo_viejo_def)
  have f: "calcular_multa cal_ejemplo 777600000000 prestamo_viejo = Inr 3000"
    using h by (simp add: calcular_multa_def timedelta_days_def days_def DIAS_LIMITE_def
                  MULTA_DIA_def)
  show ?thesis
    using h f calcular_multa_multiplo [OF h, of 777600000000]
    by simp
qed

section \<open>The report of overdue loans\<close>

lemma upt_desde: "[k..<Suc (k + n)] = k # [Suc k..<Suc (k + n)]"
  by (rule upt_conv_Cons) simp

lemma lecturas_Cons:
  "lecturas reloj k (p # ps) = (p, reloj k) # lecturas reloj (Suc k) ps"
  by (simp add: lecturas_def upt_desde del: upt_Suc)

lemma lecturas_Nil: "lecturas reloj k [] = []"
  by (simp add: lecturas_def)

lemma lecturas_constante:
  "(\<forall>k. reloj k = hoy) \<Longrightarrow> lecturas reloj k ps = map (\<lambda>p. (p, hoy)) ps"
  by (induction ps arbitrary: k) (simp_all add: lecturas_Nil lecturas_Cons)

lemma vencidos_bucle_ok:
  "\<forall>p\<in>set ps. (\<exists>T. fromisoformat cal (fecha p) = Some (Naive T)) \<Longrightarrow>
     \<exists>r. vencidos_bucle cal reloj k ps acc = Inr (acc @ r) \<and>
         map (\<lambda>(p, m). (p, Inr m)) r =
           map (\<lambda>(p, h). (p, calcular_multa cal h p))
             (filter (\<lambda>(p, h). \<exists>m. 0 < m \<and> calcular_multa cal h p = Inr m)
                (lecturas reloj k ps))"
proof (induction ps arbitrary: k acc)
  case Nil
  then show ?case by (simp add: lecturas_Nil)
next
  case (Cons p ps)
  then obtain T where T: "fromisoformat cal (fecha p) = Some (Naive T)"
    by auto
  then have m: "calcular_multa cal (reloj k) p = Inr (computeFine T (reloj k))"
    by (rule calcular_multa_Some)
  from Cons.prems have rest: "\<forall>p\<in>set ps. (\<exists>T. fromisoformat cal (fecha p) = Some (Naive T))"
    by simp
  let ?sel = "filter (\<lambda>(p, h). \<exists>m. 0 < m \<and> calcular_multa cal h p = Inr m)
                (lecturas reloj (Suc k) ps)"
  show ?case
  proof (cases "0 < computeFine T (reloj k)")
    case True
    from Cons.IH [OF rest, of "Suc k" "acc @ [(p, computeFine T (reloj k))]"] obtain r where
      r: "vencidos_bucle cal reloj (Suc k) ps (acc @ [(p, computeFine T (reloj k))])
            = Inr ((acc @ [(p, computeFine T (reloj k))]) @ r)"
         "map (\<lambda>(p, m). (p, Inr m)) r = map (\<lambda>(p, h). (p, calcular_multa cal h p)) ?sel"
      by blast
    with True m show ?thesis
      by (intro exI [of _ "(p, computeFine T (reloj k)) # r"]) (simp add: lecturas_Cons)
  next
    case False
    from Cons.IH [OF rest, of "Suc k" acc] obtain r where
      r: "vencidos_bucle cal reloj (Suc k) ps acc = Inr (acc @ r)"
         "map (\<lambda>(p, m). (p, Inr m)) r = map (\<lambda>(p, h). (p, calcular_multa cal h p)) ?sel"
      by blast
    with False m show ?thesis
      by (intro exI [of _ r]) (simp add: lecturas_Cons)
  qed
qed

lemma vencidos_bucle_constante:
  assumes "\<forall>k. reloj k = hoy"
    and "\<forall>p\<in>set ps. (\<exists>T. fromisoformat cal (fecha p) = Some (Naive T))"
  shows "\<exists>r. vencidos_bucle cal reloj k ps acc = Inr (acc @ r) \<and>
         map fst r = filter (\<lambda>p. \<exists>m. 0 < m \<and> calcular_multa cal hoy p = Inr m) ps \<and>
         (\<forall>(p, m)\<in>set r. calcular_multa cal hoy p = Inr m)"
  using assms(2)
proof (induction ps arbitrary: k acc)
  case Nil
  then show ?case by simp
next
  case (Cons p ps)
  then obtain T where T: "fromisoformat cal (fecha p) = Some (Naive T)"
    by auto
  then have "calcular_multa cal (reloj k) p = Inr (computeFine T (reloj k))"
    by (rule calcular_multa_Some)
  with assms(1) have m: "calcular_multa cal hoy p = Inr (computeFine T hoy)"
    and mk: "calcular_multa cal (reloj k) p = Inr (computeFine T hoy)"
    by simp_all
  from Cons.prems have rest: "\<forall>p\<in>set ps. (\<exists>T. fromisoformat cal (fecha p) = Some (Naive T))"
    by simp
  show ?case
  proof (cases "0 < computeFine T hoy")
    case True
    from Cons.IH [OF rest, of "Suc k" "acc @ [(p, computeFine T hoy)]"] obtain r where
      r: "vencidos_bucle cal reloj (Suc k) ps (acc @ [(p, computeFine T hoy)])
            = Inr ((acc @ [(p, computeFine T hoy)]) @ r)"
         "map fst r = filter (\<lambda>p. \<exists>m. 0 < m \<and> calcular_multa cal hoy p = Inr m) ps"
         "\<forall>(p, m)\<in>set r. calcular_multa cal hoy p = Inr m"
      by blast
    with True m mk show ?thesis
      by (intro exI [of _ "(p, computeFine T hoy) # r"]) simp
  next
    case False
    from Cons.IH [OF rest, of "Suc k" acc] obtain r where
      r: "vencidos_bucle cal reloj (Suc k) ps acc = Inr (acc @ r)"
         "map fst r = filter (\<lambda>p. \<exists>m. 0 < m \<and> calcular_multa cal hoy p = Inr m) ps"
         "\<forall>(p, m)\<in>set r. calcular_multa cal hoy p = Inr m"
      by blast
    with False m mk show ?thesis
      by (intro exI [of _ r]) simp
  qed
qed

lemma calcular_multa_error:
  "\<forall>T. fromisoformat cal (fecha p) \<noteq> Some (Naive T) \<Longrightarrow>
     calcular_multa cal hoy p = Inl (ValueError Invalid_isoformat_string) \<or>
     calcular_multa cal hoy p = Inl TypeError"
proof (cases "fromisoformat cal (fecha p)")
  case None
  then show ?thesis by (simp add: calcular_multa_def)
next
  case (Some l)
  assume "\<forall>T. fromisoformat cal (fecha p) \<noteq> Some (Naive T)"
  with Some have "l = Aware" by (cases l) auto
  with Some show ?thesis by (simp add: calcular_multa_def)
qed

lemma vencidos_bucle_error:
  "\<exists>p\<in>set ps. (\<forall>T. fromisoformat cal (fecha p) \<noteq> Some (Naive T)) \<Longrightarrow>
     vencidos_bucle cal reloj k ps acc = Inl (ValueError Invalid_isoformat_string) \<or>
     vencidos_bucle cal reloj k ps acc = Inl TypeError"
proof (induction ps arbitrary: k acc)
  case Nil
  then show ?case by simp
next
  case (Cons p ps)
  show ?case
  proof (cases "\<exists>T. fromisoformat cal (fecha p) = Some (Naive T)")
    case False
    then have "calcular_multa cal (reloj k) p = Inl (ValueError Invalid_isoformat_string) \<or>
               calcular_multa cal (reloj k) p = Inl TypeError"
      using calcular_multa_error [of cal p "reloj k"] by blast
    then show ?thesis by auto
  next
    case True
    then obtain T where T: "fromisoformat cal (fecha p) = Some (Naive T)"
      by blast
    with Cons.prems have "\<exists>p\<in>set ps. (\<forall>T. fromisoformat cal (fecha p) \<noteq> Some (Naive T))"
      by auto
    then have "\<And>k acc. vencidos_bucle cal reloj k ps acc = Inl (ValueError Invalid_isoformat_string) \<or>
                     vencidos_bucle cal reloj k ps acc = Inl TypeError"
      by (rule Cons.IH)
    with calcular_multa_Some [OF T, of "reloj k"] show ?thesis
      by simp
  qed
qed

text \<open>
  C8: \<open>prestamos_vencidos\<close> leaves the state as it was. When every loan carries a naive
  timestamp, it returns, in the order of the collection, exactly the loans whose fine, as
  \<open>calcular_multa\<close> computes it at the clock reading of the call for that loan, is
  positive, each paired with that fine. When the clock gives one reading \<open>hoy\<close> throughout,
  these are the loans whose fine at \<open>hoy\<close> is positive. (A loan whose \<open>fecha\<close> is not a
  naive timestamp makes the report raise: \<^verbatim>\<open>ValueError\<close> from the library, or
  \<^verbatim>\<open>TypeError\<close> from the comparison.)
\<close>

theorem prestamos_vencidos_filtra:
  "snd (prestamos_vencidos cal reloj s) = s \<and>
   ((\<forall>p\<in>set (prestamos (db s)). (\<exists>T. fromisoformat cal (fecha p) = Some (Naive T))) \<longrightarrow>
      (\<exists>r. fst (prestamos_vencidos cal reloj s) = Inr r \<and>
           map (\<lambda>(p, m). (p, Inr m)) r =
             map (\<lambda>(p, h). (p, calcular_multa cal h p))
               (filter (\<lambda>(p, h). \<exists>m. 0 < m \<and> calcular_multa cal h p = Inr m)
                  (zip (prestamos (db s)) (map reloj [0..<length (prestamos (db s))]))))) \<and>
   ((\<forall>k. reloj k = hoy) \<and>
    (\<forall>p\<in>set (prestamos (db s)). (\<exists>T. fromisoformat cal (fecha p) = Some (Naive T))) \<longrightarrow>
      (\<exists>r. fst (prestamos_vencidos cal reloj s) = Inr r \<and>
           map fst r =
             filter (\<lambda>p. \<exists>m. 0 < m \<and> calcular_multa cal hoy p = Inr m) (prestamos (db s)) \<and>
           (\<forall>(p, m)\<in>set r. calcular_multa cal hoy p = Inr m))) \<and>
   ((\<exists>p\<in>set (prestamos (db s)). (\<forall>T. fromisoformat cal (fecha p) \<noteq> Some (Naive T))) \<longrightarrow>
      fst (prestamos_vencidos cal reloj s) = Inl (ValueError Invalid_isoformat_string) \<or>
      fst (prestamos_vencidos cal reloj s) = Inl TypeError)"
proof -
  have 1: "snd (prestamos_vencidos cal reloj s) = s"
    by (simp add: prestamos_vencidos_def)
  have 2: "\<exists>r. fst (prestamos_vencidos cal reloj s) = Inr r \<and>
           map (\<lambda>(p, m). (p, Inr m)) r =
             map (\<lambda>(p, h). (p, calcular_multa cal h p))
               (filter (\<lambda>(p, h). \<exists>m. 0 < m \<and> calcular_multa cal h p = Inr m)
                  (zip (prestamos (db s)) (map reloj [0..<length (prestamos (db s))])))"
    if "\<forall>p\<in>set (prestamos (db s)). (\<exists>T. fromisoformat cal (fecha p) = Some (Naive T))"
    using vencidos_bucle_ok [OF that, of reloj 0 "[]"]
    by (simp add: prestamos_vencidos_def lecturas_def)
  have 3: "\<exists>r. fst (prestamos_vencidos cal reloj s) = Inr r \<and>
           map fst r =
             filter (\<lambda>p. \<exists>m. 0 < m \<and> calcular_multa cal hoy p = Inr m) (prestamos (db s)) \<and>
           (\<forall>(p, m)\<in>set r. calcular_multa cal hoy p = Inr m)"
    if "\<forall>k. reloj k = hoy"
      and "\<forall>p\<in>set (prestamos (db s)). (\<exists>T. fromisoformat cal (fecha p) = Some (Naive T))"
    using vencidos_bucle_constante [OF that, of 0 "[]"]
    by (simp add: prestamos_vencidos_def)
  have 4: "fst (prestamos_vencidos cal reloj s) = Inl (ValueError Invalid_isoformat_string) \<or>
      fst (prestamos_vencidos cal reloj s) = Inl TypeError"
    if "\<exists>p\<in>set (prestamos (db s)). (\<forall>T. fromisoformat cal (fecha p) \<noteq> Some (Naive T))"
    using vencidos_bucle_error [OF that, of reloj 0 "[]"]
    by (simp add: prestamos_vencidos_def)
  from 1 2 3 4 show ?thesis by blast
qed

text \<open>
  C8 on two loans of the same instant, with a clock that passes the end of the eighth day
  between the two calls: the first loan has no fine at its reading, the second has 1500 at
  its own, and the report holds the second loan only.
\<close>

theorem prestamos_vencidos_filtra_witness:
  "fromisoformat cal_ejemplo (fecha prestamo_viejo) = Some (Naive 0) \<and>
   fromisoformat cal_ejemplo (fecha prestamo_B) = Some (Naive 0) \<and>
   calcular_multa cal_ejemplo (reloj_ejemplo 0) prestamo_viejo = Inr 0 \<and>
   calcular_multa cal_ejemplo (reloj_ejemplo 1) prestamo_B = Inr 1500 \<and>
   prestamos_vencidos cal_ejemplo reloj_ejemplo
     (estado [socio_A] [libro 0] [prestamo_viejo, prestamo_B])
   = (Inr [(prestamo_B, 1500)], estado [socio_A] [libro 0] [prestamo_viejo, prestamo_B])"
proof -
  let ?E = "estado [socio_A] [libro 0] [prestamo_viejo, prestamo_B]"
  have ps: "prestamos (db ?E) = [prestamo_viejo, prestamo_B]"
    by (simp add: estado_def)
  have f: "fromisoformat cal_ejemplo (fecha prestamo_viejo) = Some (Naive 0)"
    "fromisoformat cal_ejemplo (fecha prestamo_B) = Some (Naive 0)"
    by (simp_all add: cal_ejemplo_def prestamo_viejo_def prestamo_B_def)
  then have h: "\<forall>p\<in>set (prestamos (db ?E)).
                  (\<exists>T. fromisoformat cal_ejemplo (fecha p) = Some (Naive T))"
    by (simp add: ps)
  have v: "calcular_multa cal_ejemplo (reloj_ejemplo 0) prestamo_viejo = Inr 0"
    using f(1) by (simp add: calcular_multa_def reloj_ejemplo_def timedelta_days_def days_def
                     DIAS_LIMITE_def MULTA_DIA_def)
  have b: "calcular_multa cal_ejemplo (reloj_ejemplo (Suc 0)) prestamo_B = Inr 1500"
    using f(2) by (simp add: calcular_multa_def reloj_ejemplo_def timedelta_days_def days_def
                     DIAS_LIMITE_def MULTA_DIA_def)
  have z: "zip (prestamos (db ?E)) (map reloj_ejemplo [0..<length (prestamos (db ?E))])
             = [(prestamo_viejo, reloj_ejemplo 0), (prestamo_B, reloj_ejemplo (Suc 0))]"
    by (simp add: ps)
  from prestamos_vencidos_filtra [of cal_ejemplo reloj_ejemplo ?E] h
  obtain r where
    r: "fst (prestamos_vencidos cal_ejemplo reloj_ejemplo ?E) = Inr r"
       "map (\<lambda>(p, m). (p, Inr m)) r =
          map (\<lambda>(p, h). (p, calcular_multa cal_ejemplo h p))
            (filter (\<lambda>(p, h). \<exists>m. 0 < m \<and> calcular_multa cal_ejemplo h p = Inr m)
               (zip (prestamos (db ?E)) (map reloj_ejemplo [0..<length (prestamos (db ?E))])))"
    and s: "snd (prestamos_vencidos cal_ejemplo reloj_ejemplo ?E) = ?E"
    by blast
  from r(2) have "map (\<lambda>(p, m). (p, Inr m)) r = [(prestamo_B, Inr 1500 :: error + int)]"
    unfolding z by (simp add: v b)
  then have "r = [(prestamo_B, 1500)]"
    by (cases r) (auto split: prod.splits)
  with r(1) s have "prestamos_vencidos cal_ejemplo reloj_ejemplo ?E = (Inr [(prestamo_B, 1500)], ?E)"
    by (metis prod.collapse)
  with f v b show ?thesis by simp
qed

section \<open>Returning\<close>

lemma devolver_Some:
  assumes p: "find (\<lambda>p. doc p = d \<and> titulo_p p = t) (prestamos (db s)) = Some p"
    and m: "find (\<lambda>m. titulo m = t) (materiales (db s)) = Some m"
  shows "\<exists>ps1 ps2 ms1 ms2.
           prestamos (db s) = ps1 @ p # ps2 \<and>
           (\<forall>q\<in>set ps1. \<not> (doc q = d \<and> titulo_p q = t)) \<and> doc p = d \<and> titulo_p p = t \<and>
           materiales (db s) = ms1 @ m # ms2 \<and>
           (\<forall>x\<in>set ms1. titulo x \<noteq> t) \<and> titulo m = t \<and>
           devolver cal hoy d t s =
             (calcular_multa cal hoy p,
              guardar_datos
                (s\<lparr>db := (db s)
                   \<lparr>prestamos := ps1 @ ps2,
                    materiales := ms1 @ m\<lparr>stock := stock m + 1\<rparr> # ms2\<rparr>\<rparr>))"
proof -
  from find_remove1 [OF p] obtain ps1 ps2 where
    ps: "prestamos (db s) = ps1 @ p # ps2" "\<forall>q\<in>set ps1. \<not> (doc q = d \<and> titulo_p q = t)"
        "doc p = d \<and> titulo_p p = t" "remove1 p (prestamos (db s)) = ps1 @ ps2"
    by blast
  from modificar_primero_find [OF m, of "\<lambda>m. m\<lparr>stock := stock m + 1\<rparr>"] obtain ms1 ms2 where
    ms: "materiales (db s) = ms1 @ m # ms2" "\<forall>x\<in>set ms1. titulo x \<noteq> t" "titulo m = t"
        "modificar_primero (\<lambda>m. titulo m = t) (\<lambda>m. m\<lparr>stock := stock m + 1\<rparr>) (materiales (db s))
           = ms1 @ m\<lparr>stock := stock m + 1\<rparr> # ms2"
    by blast
  have "devolver cal hoy d t s =
          (calcular_multa cal hoy p,
           guardar_datos
             (s\<lparr>db := (db s)
                   \<lparr>prestamos := ps1 @ ps2,
                    materiales := ms1 @ m\<lparr>stock := stock m + 1\<rparr> # ms2\<rparr>\<rparr>))"
    using p m ps(4) ms(4) by (simp add: devolver_def)
  with ps(1-3) ms(1-3) show ?thesis by blast
qed

lemma find_ex:
  "(\<exists>x\<in>set xs. Q x) \<Longrightarrow> \<exists>y. find Q xs = Some y"
  by (cases "find Q xs") (auto simp: find_None_iff)

lemma devolver_sin_material:
  assumes p: "find (\<lambda>p. doc p = d \<and> titulo_p p = t) (prestamos (db s)) = Some p"
    and m: "find (\<lambda>m. titulo m = t) (materiales (db s)) = None"
  shows "devolver cal hoy d t s =
           (Inl StopIteration, s\<lparr>db := (db s)\<lparr>prestamos := remove1 p (prestamos (db s))\<rparr>\<rparr>)"
  using p m by (simp add: devolver_def)

lemma devolver_prestamos:
  assumes "find (\<lambda>p. doc p = d \<and> titulo_p p = t) (prestamos (db s)) = Some p"
  shows "prestamos (db (snd (devolver cal hoy d t s))) = remove1 p (prestamos (db s))"
  using assms by (simp add: devolver_def guardar_datos_def Let_def split: option.splits)

text \<open>
  C6: when some loan matches \<open>(d, t)\<close>, \<open>devolver\<close> removes the first matching loan of
  the collection and no other. When, besides, a material has title \<open>t\<close>, it adds 1 to the
  stock of the first material with that title, saves, and its result is \<open>calcular_multa\<close>
  of the loan it removed (the fine of the formula when the loan's timestamp is read as
  \<open>T\<close>). When no loan matches it raises the not-found error and leaves the state as it
  was.
\<close>

theorem devolver_primero:
  "((\<exists>q\<in>set (prestamos (db s)). doc q = d \<and> titulo_p q = t) \<longrightarrow>
      (\<exists>ps1 p ps2.
         prestamos (db s) = ps1 @ p # ps2 \<and>
         (\<forall>q\<in>set ps1. \<not> (doc q = d \<and> titulo_p q = t)) \<and> doc p = d \<and> titulo_p p = t \<and>
         prestamos (db (snd (devolver cal hoy d t s))) = ps1 @ ps2)) \<and>
   ((\<exists>q\<in>set (prestamos (db s)). doc q = d \<and> titulo_p q = t) \<and>
    (\<exists>x\<in>set (materiales (db s)). titulo x = t) \<longrightarrow>
      (\<exists>ps1 p ps2 ms1 m ms2.
         prestamos (db s) = ps1 @ p # ps2 \<and>
         (\<forall>q\<in>set ps1. \<not> (doc q = d \<and> titulo_p q = t)) \<and> doc p = d \<and> titulo_p p = t \<and>
         materiales (db s) = ms1 @ m # ms2 \<and>
         (\<forall>x\<in>set ms1. titulo x \<noteq> t) \<and> titulo m = t \<and>
         devolver cal hoy d t s =
           (calcular_multa cal hoy p,
            guardar_datos
              (s\<lparr>db := (db s)
                   \<lparr>prestamos := ps1 @ ps2,
                    materiales := ms1 @ m\<lparr>stock := stock m + 1\<rparr> # ms2\<rparr>\<rparr>)) \<and>
         (\<forall>T. fromisoformat cal (fecha p) = Some (Naive T) \<longrightarrow>
            fst (devolver cal hoy d t s) = Inr (computeFine T hoy)))) \<and>
   (\<not> (\<exists>q\<in>set (prestamos (db s)). doc q = d \<and> titulo_p q = t) \<longrightarrow>
      devolver cal hoy d t s = (Inl (ValueError Ese_prestamo_no_existe), s))"
proof (intro conjI impI)
  assume "\<exists>q\<in>set (prestamos (db s)). doc q = d \<and> titulo_p q = t"
  then obtain p where
    p: "find (\<lambda>p. doc p = d \<and> titulo_p p = t) (prestamos (db s)) = Some p"
    using find_ex [of "prestamos (db s)" "\<lambda>p. doc p = d \<and> titulo_p p = t"]
    by blast
  from find_remove1 [OF p] obtain ps1 ps2 where
    "prestamos (db s) = ps1 @ p # ps2" "\<forall>q\<in>set ps1. \<not> (doc q = d \<and> titulo_p q = t)"
    "doc p = d \<and> titulo_p p = t" "remove1 p (prestamos (db s)) = ps1 @ ps2"
    by blast
  with devolver_prestamos [OF p, of cal hoy]
  show "\<exists>ps1 p ps2.
         prestamos (db s) = ps1 @ p # ps2 \<and>
         (\<forall>q\<in>set ps1. \<not> (doc q = d \<and> titulo_p q = t)) \<and> doc p = d \<and> titulo_p p = t \<and>
         prestamos (db (snd (devolver cal hoy d t s))) = ps1 @ ps2"
    by auto
next
  assume "(\<exists>q\<in>set (prestamos (db s)). doc q = d \<and> titulo_p q = t) \<and>
          (\<exists>x\<in>set (materiales (db s)). titulo x = t)"
  then obtain p m where
    p: "find (\<lambda>p. doc p = d \<and> titulo_p p = t) (prestamos (db s)) = Some p" and
    m: "find (\<lambda>m. titulo m = t) (materiales (db s)) = Some m"
    using find_ex [of "prestamos (db s)" "\<lambda>p. doc p = d \<and> titulo_p p = t"]
          find_ex [of "materiales (db s)" "\<lambda>m. titulo m = t"]
    by blast
  from devolver_Some [OF p m, of cal hoy] obtain ps1 ps2 ms1 ms2 where
    *: "prestamos (db s) = ps1 @ p # ps2"
       "\<forall>q\<in>set ps1. \<not> (doc q = d \<and> titulo_p q = t)" "doc p = d" "titulo_p p = t"
       "materiales (db s) = ms1 @ m # ms2" "\<forall>x\<in>set ms1. titulo x \<noteq> t" "titulo m = t"
       "devolver cal hoy d t s =
          (calcular_multa cal hoy p,
           guardar_datos
             (s\<lparr>db := (db s)
                   \<lparr>prestamos := ps1 @ ps2,
                    materiales := ms1 @ m\<lparr>stock := stock m + 1\<rparr> # ms2\<rparr>\<rparr>))"
    by blast
  have "\<forall>T. fromisoformat cal (fecha p) = Some (Naive T) \<longrightarrow>
            fst (devolver cal hoy d t s) = Inr (computeFine T hoy)"
    using *(8) by (simp add: calcular_multa_Some)
  with * show "\<exists>ps1 p ps2 ms1 m ms2.
         prestamos (db s) = ps1 @ p # ps2 \<and>
         (\<forall>q\<in>set ps1. \<not> (doc q = d \<and> titulo_p q = t)) \<and> doc p = d \<and> titulo_p p = t \<and>
         materiales (db s) = ms1 @ m # ms2 \<and>
         (\<forall>x\<in>set ms1. titulo x \<noteq> t) \<and> titulo m = t \<and>
         devolver cal hoy d t s =
           (calcular_multa cal hoy p,
            guardar_datos
              (s\<lparr>db := (db s)
                   \<lparr>prestamos := ps1 @ ps2,
                    materiales := ms1 @ m\<lparr>stock := stock m + 1\<rparr> # ms2\<rparr>\<rparr>)) \<and>
         (\<forall>T. fromisoformat cal (fecha p) = Some (Naive T) \<longrightarrow>
            fst (devolver cal hoy d t s) = Inr (computeFine T hoy))"
    by blast
next
  assume "\<not> (\<exists>q\<in>set (prestamos (db s)). doc q = d \<and> titulo_p q = t)"
  then have "find (\<lambda>p. doc p = d \<and> titulo_p p = t) (prestamos (db s)) = None"
    by (simp add: find_None_iff)
  then show "devolver cal hoy d t s = (Inl (ValueError Ese_prestamo_no_existe), s)"
    by (simp add: devolver_def)
qed

text \<open>
  C6 on two matching loans: the older one is removed, the stock goes from 0 to 1 and the
  fine is 3000; with no loan the call raises.
\<close>

theorem devolver_primero_witness:
  "(\<exists>q\<in>set (prestamos (db (estado [socio_A] [libro 0] [prestamo_viejo, prestamo_nuevo]))).
      doc q = ''doc1'' \<and> titulo_p q = ''Book'') \<and>
   (\<exists>x\<in>set (materiales (db (estado [socio_A] [libro 0] [prestamo_viejo, prestamo_nuevo]))).
      titulo x = ''Book'') \<and>
   devolver cal_ejemplo 777600000000 ''doc1'' ''Book''
     (estado [socio_A] [libro 0] [prestamo_viejo, prestamo_nuevo])
     = (Inr 3000, guardar_datos (estado [socio_A] [libro 1] [prestamo_nuevo])) \<and>
   \<not> (\<exists>q\<in>set (prestamos (db (estado [socio_A] [libro 0] []))).
      doc q = ''doc1'' \<and> titulo_p q = ''Book'') \<and>
   devolver cal_ejemplo 777600000000 ''doc1'' ''Book'' (estado [socio_A] [libro 0] [])
     = (Inl (ValueError Ese_prestamo_no_existe), estado [socio_A] [libro 0] [])"
  using devolver_primero
          [where s = "estado [socio_A] [libro 0] [prestamo_viejo, prestamo_nuevo]"
             and d = "''doc1''" and t = "''Book''" and cal = cal_ejemplo
             and hoy = 777600000000]
        devolver_primero
          [where s = "estado [socio_A] [libro 0] []"
             and d = "''doc1''" and t = "''Book''" and cal = cal_ejemplo
             and hoy = 777600000000]
  by (simp add: devolver_def guardar_datos_def estado_def socio_A_def libro_def
        prestamo_viejo_def prestamo_nuevo_def cal_ejemplo_def calcular_multa_def
        timedelta_days_def days_def DIAS_LIMITE_def MULTA_DIA_def)

section \<open>Lending, then returning\<close>

lemma modificar_primero_twice:
  "(\<And>x. Q x \<Longrightarrow> Q (f x)) \<Longrightarrow>
     modificar_primero Q g (modificar_primero Q f xs) = modificar_primero Q (\<lambda>x. g (f x)) xs"
  by (induction xs) auto

lemma modificar_primero_id:
  "(\<And>x. Q x \<Longrightarrow> f x = x) \<Longrightarrow> modificar_primero Q f xs = xs"
  by (induction xs) auto

lemma stock_ida_y_vuelta:
  "modificar_primero (\<lambda>m. titulo m = t) (\<lambda>m. m\<lparr>stock := stock m + 1\<rparr>)
     (modificar_primero (\<lambda>m. titulo m = t) (\<lambda>m. m\<lparr>stock := stock m - 1\<rparr>) ms) = ms"
proof -
  have "modificar_primero (\<lambda>m. titulo m = t) (\<lambda>m. m\<lparr>stock := stock m + 1\<rparr>)
     (modificar_primero (\<lambda>m. titulo m = t) (\<lambda>m. m\<lparr>stock := stock m - 1\<rparr>) ms)
     = modificar_primero (\<lambda>m. titulo m = t)
         (\<lambda>m. (m\<lparr>stock := stock m - 1\<rparr>)\<lparr>stock := stock (m\<lparr>stock := stock m - 1\<rparr>) + 1\<rparr>) ms"
    by (rule modificar_primero_twice) simp
  also have "\<dots> = ms"
    by (rule modificar_primero_id) simp
  finally show ?thesis .
qed

lemma find_modificar_primero:
  "(\<And>x. Q (f x) = Q x) \<Longrightarrow>
     find Q (modificar_primero Q f xs) = map_option f (find Q xs)"
  by (induction xs) auto

lemma find_append_nuevo:
  "Q n \<Longrightarrow> find Q (xs @ [n]) = Some (case find Q xs of None \<Rightarrow> n | Some p \<Rightarrow> p)"
  by (induction xs) auto

lemma remove1_nuevo:
  "find Q xs = None \<Longrightarrow> Q n \<Longrightarrow> remove1 n (xs @ [n]) = xs"
  by (induction xs) (auto split: if_splits)

lemma remove1_viejo:
  "find Q xs = Some p \<Longrightarrow> remove1 p (xs @ [n]) = remove1 p xs @ [n]"
  by (induction xs) (auto split: if_splits)

lemma length_remove1_find:
  "find Q xs = Some p \<Longrightarrow> Suc (length (remove1 p xs)) = length xs"
  by (induction xs) (auto split: if_splits)

lemma prestar_Inr:
  assumes x: "find (\<lambda>x. documento x = d) (socios (db s)) = Some x"
    and m: "find (\<lambda>m. titulo m = t) (materiales (db s)) = Some m" and pos: "0 < stock m"
  shows "prestar cal ahora d t s =
           (Inr (),
            guardar_datos
              (s\<lparr>db := (db s)
                   \<lparr>materiales :=
                      modificar_primero (\<lambda>m. titulo m = t)
                        (\<lambda>m. m\<lparr>stock := stock m - 1\<rparr>) (materiales (db s)),
                    prestamos :=
                      prestamos (db s) @
                      [\<lparr>doc = d, titulo_p = t, fecha = isoformat cal ahora\<rparr>]\<rparr>\<rparr>))"
  using assms by (simp add: prestar_def)

lemma prestar_devolver_estado:
  assumes x: "find (\<lambda>x. documento x = d) (socios (db s)) = Some x"
    and m: "find (\<lambda>m. titulo m = t) (materiales (db s)) = Some m" and pos: "0 < stock m"
  shows "db (snd (devolver cal hoy d t (snd (prestar cal ahora d t s)))) =
           (db s)\<lparr>prestamos :=
                   (case find (\<lambda>p. doc p = d \<and> titulo_p p = t) (prestamos (db s)) of
                      None \<Rightarrow> prestamos (db s)
                    | Some p \<Rightarrow>
                        remove1 p (prestamos (db s)) @
                        [\<lparr>doc = d, titulo_p = t, fecha = isoformat cal ahora\<rparr>])\<rparr>"
proof -
  let ?n = "\<lparr>doc = d, titulo_p = t, fecha = isoformat cal ahora\<rparr>"
  let ?Q = "\<lambda>p. doc p = d \<and> titulo_p p = t"
  let ?ms1 = "modificar_primero (\<lambda>m. titulo m = t) (\<lambda>m. m\<lparr>stock := stock m - 1\<rparr>)
                (materiales (db s))"
  have fm: "find (\<lambda>m. titulo m = t) ?ms1 = Some (m\<lparr>stock := stock m - 1\<rparr>)"
    using m by (simp add: find_modificar_primero)
  have fp: "find ?Q (prestamos (db s) @ [?n])
              = Some (case find ?Q (prestamos (db s)) of None \<Rightarrow> ?n | Some p \<Rightarrow> p)"
    by (rule find_append_nuevo) simp
  have rm: "remove1 (case find ?Q (prestamos (db s)) of None \<Rightarrow> ?n | Some p \<Rightarrow> p)
              (prestamos (db s) @ [?n])
            = (case find ?Q (prestamos (db s)) of
                 None \<Rightarrow> prestamos (db s)
               | Some p \<Rightarrow> remove1 p (prestamos (db s)) @ [?n])"
  proof (cases "find ?Q (prestamos (db s))")
    case None
    then show ?thesis
      using remove1_nuevo [of ?Q "prestamos (db s)" ?n] by simp
  next
    case (Some p)
    then show ?thesis
      using remove1_viejo [of ?Q "prestamos (db s)" p ?n] by simp
  qed
  show ?thesis
    using fm fp rm stock_ida_y_vuelta [of t "materiales (db s)"]
    by (simp add: prestar_Inr [OF x m pos] devolver_def guardar_datos_def)
qed

text \<open>
  C4 (as amended): with a registered member \<open>d\<close> and a material \<open>t\<close> in stock,
  \<open>prestar\<close> succeeds, and \<open>devolver\<close> after it restores the members, the materials with
  every stock, and the number of loans. If no loan of \<open>(d, t)\<close> was open before, the loans
  are the ones before and a second \<open>devolver\<close> raises the not-found error. If one was open,
  the earliest of them is the one removed and the new loan stays at the end. In every case
  a further \<open>devolver\<close> raises the not-found error when no loan of \<open>(d, t)\<close> is left.
\<close>

theorem prestar_devolver:
  assumes "\<exists>x\<in>set (socios (db s)). documento x = d"
    and "find (\<lambda>m. titulo m = t) (materiales (db s)) = Some m" and "0 < stock m"
  shows "let s1 = snd (prestar cal ahora d t s);
             s2 = snd (devolver cal hoy d t s1);
             nuevo = \<lparr>doc = d, titulo_p = t, fecha = isoformat cal ahora\<rparr>
         in fst (prestar cal ahora d t s) = Inr () \<and>
            socios (db s2) = socios (db s) \<and>
            materiales (db s2) = materiales (db s) \<and>
            length (prestamos (db s2)) = length (prestamos (db s)) \<and>
            (\<not> (\<exists>q\<in>set (prestamos (db s)). doc q = d \<and> titulo_p q = t) \<longrightarrow>
               prestamos (db s2) = prestamos (db s) \<and>
               devolver cal luego d t s2 = (Inl (ValueError Ese_prestamo_no_existe), s2)) \<and>
            (\<forall>p. find (\<lambda>q. doc q = d \<and> titulo_p q = t) (prestamos (db s)) = Some p \<longrightarrow>
               prestamos (db s2) = remove1 p (prestamos (db s)) @ [nuevo]) \<and>
            (\<not> (\<exists>q\<in>set (prestamos (db s2)). doc q = d \<and> titulo_p q = t) \<longrightarrow>
               devolver cal luego d t s2 = (Inl (ValueError Ese_prestamo_no_existe), s2))"
proof -
  let ?Q = "\<lambda>p. doc p = d \<and> titulo_p p = t"
  let ?s2 = "snd (devolver cal hoy d t (snd (prestar cal ahora d t s)))"
  let ?n = "\<lparr>doc = d, titulo_p = t, fecha = isoformat cal ahora\<rparr>"
  from assms(1) obtain x where x: "find (\<lambda>x. documento x = d) (socios (db s)) = Some x"
    using find_ex [of "socios (db s)" "\<lambda>x. documento x = d"] by blast
  note m = assms(2) and pos = assms(3)
  have a: "fst (prestar cal ahora d t s) = Inr ()"
    by (simp add: prestar_Inr [OF x m pos])
  have st: "db ?s2 = (db s)\<lparr>prestamos :=
                   (case find ?Q (prestamos (db s)) of
                      None \<Rightarrow> prestamos (db s)
                    | Some p \<Rightarrow> remove1 p (prestamos (db s)) @ [?n])\<rparr>"
    by (rule prestar_devolver_estado [OF x m pos])
  have b: "socios (db ?s2) = socios (db s)" "materiales (db ?s2) = materiales (db s)"
    by (simp_all add: st)
  have c: "length (prestamos (db ?s2)) = length (prestamos (db s))"
    using length_remove1_find [of ?Q "prestamos (db s)"]
    by (auto simp: st split: option.splits)
  have fail: "devolver cal luego d t ?s2 = (Inl (ValueError Ese_prestamo_no_existe), ?s2)"
    if "\<not> (\<exists>q\<in>set (prestamos (db ?s2)). ?Q q)"
  proof -
    from that have "find ?Q (prestamos (db ?s2)) = None"
      by (simp add: find_None_iff)
    then show ?thesis by (simp add: devolver_def)
  qed
  have d: "prestamos (db ?s2) = prestamos (db s) \<and>
           devolver cal luego d t ?s2 = (Inl (ValueError Ese_prestamo_no_existe), ?s2)"
    if "\<not> (\<exists>q\<in>set (prestamos (db s)). ?Q q)"
  proof -
    from that have none: "find ?Q (prestamos (db s)) = None"
      by (simp add: find_None_iff)
    then have eq: "prestamos (db ?s2) = prestamos (db s)"
      by (simp add: st)
    with that fail show ?thesis by simp
  qed
  have e: "\<forall>p. find ?Q (prestamos (db s)) = Some p \<longrightarrow>
             prestamos (db ?s2) = remove1 p (prestamos (db s)) @ [?n]"
    by (simp add: st)
  show ?thesis
    unfolding Let_def using a b c d e fail by blast
qed

text \<open>
  C4 on a state without loans: the stock goes from 2 to 1 and back to 2, no loan is left,
  and a second return raises.
\<close>

theorem prestar_devolver_witness:
  "(\<exists>x\<in>set (socios (db (estado [socio_A] [libro 2] []))). documento x = ''doc1'') \<and>
   find (\<lambda>m. titulo m = ''Book'') (materiales (db (estado [socio_A] [libro 2] [])))
     = Some (libro 2) \<and>
   0 < stock (libro 2) \<and>
   materiales (db (snd (prestar cal_ejemplo 0 ''doc1'' ''Book'' (estado [socio_A] [libro 2] []))))
     = [libro 1] \<and>
   materiales (db (snd (devolver cal_ejemplo 777600000000 ''doc1'' ''Book''
      (snd (prestar cal_ejemplo 0 ''doc1'' ''Book'' (estado [socio_A] [libro 2] []))))))
     = [libro 2] \<and>
   prestamos (db (snd (devolver cal_ejemplo 777600000000 ''doc1'' ''Book''
      (snd (prestar cal_ejemplo 0 ''doc1'' ''Book'' (estado [socio_A] [libro 2] []))))))
     = [] \<and>
   fst (devolver cal_ejemplo 777600000000 ''doc1'' ''Book''
     (snd (devolver cal_ejemplo 777600000000 ''doc1'' ''Book''
        (snd (prestar cal_ejemplo 0 ''doc1'' ''Book'' (estado [socio_A] [libro 2] []))))))
     = Inl (ValueError Ese_prestamo_no_existe)"
proof -
  let ?E = "estado [socio_A] [libro 2] []"
  have h1: "\<exists>x\<in>set (socios (db ?E)). documento x = ''doc1''"
    by (simp add: estado_def socio_A_def)
  have h2: "find (\<lambda>m. titulo m = ''Book'') (materiales (db ?E)) = Some (libro 2)"
    by (simp add: estado_def libro_def)
  have h3: "0 < stock (libro 2)"
    by (simp add: libro_def)
  have none: "\<not> (\<exists>q\<in>set (prestamos (db ?E)). doc q = ''doc1'' \<and> titulo_p q = ''Book'')"
    by (simp add: estado_def)
  have m1: "materiales (db (snd (prestar cal_ejemplo 0 ''doc1'' ''Book'' ?E))) = [libro 1]"
    by (simp add: prestar_def guardar_datos_def estado_def socio_A_def libro_def)
  have E: "materiales (db ?E) = [libro 2]" "prestamos (db ?E) = []"
    by (simp_all add: estado_def)
  from prestar_devolver [OF h1 h2 h3, where cal = cal_ejemplo and ahora = 0
         and hoy = 777600000000 and luego = 777600000000] none
  show ?thesis
    using h1 h2 h3 m1 E by (simp add: Let_def)
qed

text \<open>
  C4 as stated fails: with a loan of \<open>(d, t)\<close> already open, lending and returning
  removes the older loan and keeps the new one, so the loans are not the ones before.
\<close>

theorem prestar_devolver_counterexample:
  "(\<exists>x\<in>set (socios (db (estado [socio_A] [libro 1] [prestamo_viejo]))). documento x = ''doc1'') \<and>
   find (\<lambda>m. titulo m = ''Book'') (materiales (db (estado [socio_A] [libro 1] [prestamo_viejo])))
     = Some (libro 1) \<and>
   0 < stock (libro 1) \<and>
   fst (prestar cal_ejemplo 777600000000 ''doc1'' ''Book''
          (estado [socio_A] [libro 1] [prestamo_viejo])) = Inr () \<and>
   fst (devolver cal_ejemplo 777600000000 ''doc1'' ''Book''
          (snd (prestar cal_ejemplo 777600000000 ''doc1'' ''Book''
                  (estado [socio_A] [libro 1] [prestamo_viejo])))) = Inr 3000 \<and>
   prestamos (db (estado [socio_A] [libro 1] [prestamo_viejo])) = [prestamo_viejo] \<and>
   prestamos (db (snd (devolver cal_ejemplo 777600000000 ''doc1'' ''Book''
          (snd (prestar cal_ejemplo 777600000000 ''doc1'' ''Book''
                  (estado [socio_A] [libro 1] [prestamo_viejo])))))) = [prestamo_nuevo] \<and>
   prestamos (db (snd (devolver cal_ejemplo 777600000000 ''doc1'' ''Book''
          (snd (prestar cal_ejemplo 777600000000 ''doc1'' ''Book''
                  (estado [socio_A] [libro 1] [prestamo_viejo]))))))
     \<noteq> prestamos (db (estado [socio_A] [libro 1] [prestamo_viejo]))"
  by (simp add: prestar_def devolver_def guardar_datos_def estado_def socio_A_def libro_def
        prestamo_viejo_def prestamo_nuevo_def cal_ejemplo_def calcular_multa_def
        timedelta_days_def days_def DIAS_LIMITE_def MULTA_DIA_def)

section \<open>Saving and loading\<close>

lemma construir_map:
  "(\<And>x. f (g x) = Inr x) \<Longrightarrow> construir f (map g xs) = Inr xs"
  by (induction xs) simp_all

lemma Socio_de_asdict: "Socio_de (asdict_socio x) = Inr x"
  by (simp add: Socio_de_def asdict_socio_def campo_def)

lemma Material_de_asdict: "Material_de (asdict_material x) = Inr x"
  by (simp add: Material_de_def asdict_material_def campo_def insert_commute)

lemma Prestamo_de_asdict: "Prestamo_de (asdict_prestamo x) = Inr x"
  by (simp add: Prestamo_de_def asdict_prestamo_def campo_def insert_commute)

lemma leer_guardado:
  "(\<And>x. f (g x) = Inr x) \<Longrightarrow> leer f (JArr (map g xs)) = Inr xs"
  by (simp add: leer_def iterar_def construir_map)

lemma cargar_guardado:
  "cargar_datos (archivos (guardar_datos s)) b = Inr (db s)"
  by (simp add: cargar_datos_def guardar_datos_def leer_guardado Socio_de_asdict
        Material_de_asdict Prestamo_de_asdict)

lemma cargar_ausente:
  assumes "BaseDatos_init a = Inr b"
  shows "(ARCHIVO_SOCIOS a = None \<longrightarrow> socios b = []) \<and>
         (ARCHIVO_MATERIALES a = None \<longrightarrow> materiales b = []) \<and>
         (ARCHIVO_PRESTAMOS a = None \<longrightarrow> prestamos b = [])"
  using assms
  by (auto simp: BaseDatos_init_def cargar_datos_def split: option.splits sum.splits)

lemma campo_permutado:
  assumes "distinct (map fst kvs)" and "distinct (map fst kvs')" and "set kvs = set kvs'"
  shows "campo kvs = campo kvs'"
proof -
  have "map_of (rev kvs) = map_of (rev kvs')"
    using assms by (subst map_of_inject_set) (simp_all add: rev_map [symmetric] )
  then show ?thesis by (simp add: campo_def fun_eq_iff)
qed

lemma Socio_de_permutado:
  assumes "distinct (map fst kvs)" and "asdict_socio x = JObj kvs'" and "set kvs = set kvs'"
  shows "Socio_de (JObj kvs) = Inr x"
proof -
  from assms(2) have d: "distinct (map fst kvs')"
    by (auto simp: asdict_socio_def)
  have "campo kvs = campo kvs'"
    using assms(1) d assms(3) by (rule campo_permutado)
  moreover have "set (map fst kvs) = set (map fst kvs')"
    using assms(3) by simp
  ultimately have "Socio_de (JObj kvs) = Socio_de (JObj kvs')"
    by (simp add: Socio_de_def)
  with assms(2) show ?thesis
    by (simp add: Socio_de_asdict [symmetric])
qed

lemma Material_de_permutado:
  assumes "distinct (map fst kvs)" and "asdict_material x = JObj kvs'" and "set kvs = set kvs'"
  shows "Material_de (JObj kvs) = Inr x"
proof -
  from assms(2) have d: "distinct (map fst kvs')"
    by (auto simp: asdict_material_def)
  have "campo kvs = campo kvs'"
    using assms(1) d assms(3) by (rule campo_permutado)
  moreover have "set (map fst kvs) = set (map fst kvs')"
    using assms(3) by simp
  ultimately have "Material_de (JObj kvs) = Material_de (JObj kvs')"
    by (simp add: Material_de_def)
  with assms(2) show ?thesis
    by (simp add: Material_de_asdict [symmetric])
qed

lemma Prestamo_de_permutado:
  assumes "distinct (map fst kvs)" and "asdict_prestamo x = JObj kvs'" and "set kvs = set kvs'"
  shows "Prestamo_de (JObj kvs) = Inr x"
proof -
  from assms(2) have d: "distinct (map fst kvs')"
    by (auto simp: asdict_prestamo_def)
  have "campo kvs = campo kvs'"
    using assms(1) d assms(3) by (rule campo_permutado)
  moreover have "set (map fst kvs) = set (map fst kvs')"
    using assms(3) by simp
  ultimately have "Prestamo_de (JObj kvs) = Prestamo_de (JObj kvs')"
    by (simp add: Prestamo_de_def)
  with assms(2) show ?thesis
    by (simp add: Prestamo_de_asdict [symmetric])
qed

text \<open>
  C5: loading what \<open>guardar_datos\<close> saved gives back the three collections, the same
  records in the same order, at start-up and over any collections held before. A file that
  is absent loads as an empty collection. The order of the fields inside a saved object does
  not matter: any object with the same bindings, in any order, builds the same record.
\<close>

theorem guardar_cargar:
  "BaseDatos_init (archivos (guardar_datos s)) = Inr (db s) \<and>
   cargar_datos (archivos (guardar_datos s)) b = Inr (db s) \<and>
   BaseDatos_init
     \<lparr>ARCHIVO_SOCIOS = None, ARCHIVO_MATERIALES = None, ARCHIVO_PRESTAMOS = None\<rparr>
     = Inr \<lparr>socios = [], materiales = [], prestamos = []\<rparr> \<and>
   (\<forall>b'. BaseDatos_init a = Inr b' \<longrightarrow>
      (ARCHIVO_SOCIOS a = None \<longrightarrow> socios b' = []) \<and>
      (ARCHIVO_MATERIALES a = None \<longrightarrow> materiales b' = []) \<and>
      (ARCHIVO_PRESTAMOS a = None \<longrightarrow> prestamos b' = [])) \<and>
   (\<forall>kvs kvs'. distinct (map fst kvs) \<and> set kvs = set kvs' \<longrightarrow>
      (asdict_socio x = JObj kvs' \<longrightarrow> Socio_de (JObj kvs) = Inr x) \<and>
      (asdict_material m = JObj kvs' \<longrightarrow> Material_de (JObj kvs) = Inr m) \<and>
      (asdict_prestamo p = JObj kvs' \<longrightarrow> Prestamo_de (JObj kvs) = Inr p))"
proof -
  have 1: "BaseDatos_init (archivos (guardar_datos s)) = Inr (db s)"
    unfolding BaseDatos_init_def by (rule cargar_guardado)
  have 2: "cargar_datos (archivos (guardar_datos s)) b = Inr (db s)"
    by (rule cargar_guardado)
  have 3: "BaseDatos_init
     \<lparr>ARCHIVO_SOCIOS = None, ARCHIVO_MATERIALES = None, ARCHIVO_PRESTAMOS = None\<rparr>
     = Inr \<lparr>socios = [], materiales = [], prestamos = []\<rparr>"
    by (simp add: BaseDatos_init_def cargar_datos_def)
  have 4: "\<forall>b'. BaseDatos_init a = Inr b' \<longrightarrow>
      (ARCHIVO_SOCIOS a = None \<longrightarrow> socios b' = []) \<and>
      (ARCHIVO_MATERIALES a = None \<longrightarrow> materiales b' = []) \<and>
      (ARCHIVO_PRESTAMOS a = None \<longrightarrow> prestamos b' = [])"
    using cargar_ausente [of a] by blast
  have 5: "\<forall>kvs kvs'. distinct (map fst kvs) \<and> set kvs = set kvs' \<longrightarrow>
      (asdict_socio x = JObj kvs' \<longrightarrow> Socio_de (JObj kvs) = Inr x) \<and>
      (asdict_material m = JObj kvs' \<longrightarrow> Material_de (JObj kvs) = Inr m) \<and>
      (asdict_prestamo p = JObj kvs' \<longrightarrow> Prestamo_de (JObj kvs) = Inr p)"
    using Socio_de_permutado [of _ x] Material_de_permutado [of _ m]
          Prestamo_de_permutado [of _ p]
    by blast
  from 1 2 3 4 5 show ?thesis by blast
qed

text \<open>
  C5 on the scenario of the specification (member A, one copy of Book left, one loan), and
  on the member's object with its two fields swapped.
\<close>

theorem guardar_cargar_witness:
  "BaseDatos_init (archivos (guardar_datos (estado [socio_A] [libro 1] [prestamo_viejo])))
     = Inr \<lparr>socios = [socio_A], materiales = [libro 1], prestamos = [prestamo_viejo]\<rparr> \<and>
   ARCHIVO_SOCIOS (archivos (guardar_datos (estado [socio_A] [libro 1] [prestamo_viejo])))
     = Some (JArr [JObj [(''documento'', JStr ''doc1''), (''nombre'', JStr ''A'')]]) \<and>
   distinct (map fst [(''nombre'', JStr ''A''), (''documento'', JStr ''doc1'')]) \<and>
   set [(''nombre'', JStr ''A''), (''documento'', JStr ''doc1'')]
     = set [(''documento'', JStr ''doc1''), (''nombre'', JStr ''A'')] \<and>
   asdict_socio socio_A = JObj [(''documento'', JStr ''doc1''), (''nombre'', JStr ''A'')] \<and>
   Socio_de (JObj [(''nombre'', JStr ''A''), (''documento'', JStr ''doc1'')]) = Inr socio_A"
proof -
  have h: "distinct (map fst [(''nombre'', JStr ''A''), (''documento'', JStr ''doc1'')]) \<and>
           set [(''nombre'', JStr ''A''), (''documento'', JStr ''doc1'')]
             = set [(''documento'', JStr ''doc1''), (''nombre'', JStr ''A'')]"
    by auto
  have a: "asdict_socio socio_A = JObj [(''documento'', JStr ''doc1''), (''nombre'', JStr ''A'')]"
    by (simp add: asdict_socio_def socio_A_def)
  from guardar_cargar [where s = "estado [socio_A] [libro 1] [prestamo_viejo]" and x = socio_A]
  have r: "BaseDatos_init (archivos (guardar_datos (estado [socio_A] [libro 1] [prestamo_viejo])))
             = Inr (db (estado [socio_A] [libro 1] [prestamo_viejo]))"
    and o: "\<forall>kvs kvs'. distinct (map fst kvs) \<and> set kvs = set kvs' \<longrightarrow>
              (asdict_socio socio_A = JObj kvs' \<longrightarrow> Socio_de (JObj kvs) = Inr socio_A)"
    by blast+
  from o h a have
    "Socio_de (JObj [(''nombre'', JStr ''A''), (''documento'', JStr ''doc1'')]) = Inr socio_A"
    by blast
  with r h a show ?thesis
    by (simp add: estado_def guardar_datos_def asdict_socio_def socio_A_def)
qed

end
